theory Spec2Isabelle
  imports
    Complex_Main
    "HOL-Library.Char_ord"
    "HOL-Library.List_Lexorder"
begin

section \<open>The sales dashboard pipeline of \<^verbatim>\<open>src/app/app.py\<close>\<close>

text \<open>
  The script loads a CSV of sales transactions into a pandas DataFrame, filters it by a
  date range and two membership constraints, computes KPIs and grouped roll-ups, and
  writes a four-sheet workbook. Each step below is the embedding of the lines named in
  its comment.

  Modelling choices:
  \<^item> a loaded row is a record: one field per column the script reads, and \<open>cells\<close>, the
    row as the frame holds it, one cell per column of the frame in column order;
  \<^item> a pandas \<^verbatim>\<open>Timestamp\<close> is the integer count of nanoseconds since the epoch, a
    \<^verbatim>\<open>datetime.date\<close> the integer count of days;
  \<^item> \<^verbatim>\<open>Sales\<close> amounts are exact rationals: the rounding of float64 addition and
    division is outside the model;
  \<^item> text cells are strings, ordered as Python orders \<^verbatim>\<open>str\<close> (lexicographically
    by character code);
  \<^item> a value that may be \<^verbatim>\<open>np.nan\<close> or infinite is an \<open>npfloat\<close>;
  \<^item> a raise is the \<open>Inl\<close> branch of a sum.
\<close>

subsection \<open>Data model\<close>

type_synonym timestamp = int

type_synonym date = int

text \<open>A cell of a frame or of a sheet: a text, a timestamp, a number, or no value.\<close>

datatype cell = Text string | Stamp timestamp | Number rat | Missing

record row =
  Order_ID :: string
  Order_Date :: timestamp
  Product :: string
  Category :: string
  Region :: string
  Sales :: rat
  order_month :: string
  cells :: "cell list"

type_synonym dataframe = "row list"

type_synonym series = "(string \<times> rat) list"

datatype error = ValueError | AttributeError | IndexError | KeyError

datatype npfloat = Num rat | PosInf | NegInf | NaN

subsection \<open>Aggregation (lines 86--90, 34--41)\<close>

text \<open>
  \<^verbatim>\<open>df.groupby(key)["Sales"].sum()\<close>: a series indexed by the distinct values of the
  key column, in ascending key order (\<^verbatim>\<open>sort=True\<close> is the default of
  \<^verbatim>\<open>groupby\<close>), each with the sum of \<^verbatim>\<open>Sales\<close> over the rows carrying that key.
\<close>

definition group_keys :: "(row \<Rightarrow> string) \<Rightarrow> dataframe \<Rightarrow> string list" where
  "group_keys key d = sort (remdups (map key d))"

definition group_rows :: "(row \<Rightarrow> string) \<Rightarrow> dataframe \<Rightarrow> string \<Rightarrow> dataframe" where
  "group_rows key d k = filter (\<lambda>r. key r = k) d"

definition groupby_sum :: "(row \<Rightarrow> string) \<Rightarrow> dataframe \<Rightarrow> series" where
  "groupby_sum key d =
     map (\<lambda>k. (k, sum_list (map Sales (group_rows key d k)))) (group_keys key d)"

text \<open>\<^verbatim>\<open>total_revenue = df_f["Sales"].sum()\<close> (line 86).\<close>

definition total_revenue :: "dataframe \<Rightarrow> rat" where
  "total_revenue d = sum_list (map Sales d)"

text \<open>\<^verbatim>\<open>total_orders = df_f["Order ID"].nunique()\<close> (line 87).\<close>

definition total_orders :: "dataframe \<Rightarrow> nat" where
  "total_orders d = length (remdups (map Order_ID d))"

text \<open>
  True division as numpy performs it: a zero divisor does not raise, it yields
  \<^verbatim>\<open>nan\<close> (for \<^verbatim>\<open>0/0\<close>) or a signed infinity.
\<close>

definition np_div :: "rat \<Rightarrow> rat \<Rightarrow> npfloat" where
  "np_div a b =
     (if b \<noteq> 0 then Num (a / b)
      else if a = 0 then NaN
      else if 0 < a then PosInf else NegInf)"

definition np_mul :: "npfloat \<Rightarrow> rat \<Rightarrow> npfloat" where
  "np_mul x c =
     (case x of
        Num a \<Rightarrow> Num (a * c)
      | NaN \<Rightarrow> NaN
      | PosInf \<Rightarrow> (if 0 < c then PosInf else if c < 0 then NegInf else NaN)
      | NegInf \<Rightarrow> (if 0 < c then NegInf else if c < 0 then PosInf else NaN))"

text \<open>
  \<^verbatim>\<open>avg_order_value = total_revenue / total_orders if total_orders > 0 else 0\<close>
  (line 88).
\<close>

definition avg_order_value :: "dataframe \<Rightarrow> npfloat" where
  "avg_order_value d =
     (if total_orders d > 0 then np_div (total_revenue d) (of_nat (total_orders d))
      else Num 0)"

subsection \<open>Month-over-month growth (lines 90--97)\<close>

text \<open>\<^verbatim>\<open>.sort_index()\<close>: the series reordered by ascending index label.\<close>

definition sort_index :: "series \<Rightarrow> series" where
  "sort_index s = sort_key fst s"

definition monthly_sales :: "dataframe \<Rightarrow> series" where
  "monthly_sales d = sort_index (groupby_sum order_month d)"

text \<open>
  \<^verbatim>\<open>s.iloc[i]\<close>: the value at position \<open>i\<close>, a negative \<open>i\<close> counting from the end;
  a position outside the series raises \<^verbatim>\<open>IndexError\<close>.
\<close>

definition iloc :: "series \<Rightarrow> int \<Rightarrow> error + rat" where
  "iloc s i =
     (if 0 \<le> i \<and> i < int (length s) then Inr (snd (s ! nat i))
      else if i < 0 \<and> - i \<le> int (length s) then Inr (snd (s ! nat (int (length s) + i)))
      else Inl IndexError)"

text \<open>
  Lines 92--97. \<^verbatim>\<open>mom_growth\<close> starts as \<^verbatim>\<open>np.nan\<close> and is overwritten only under
  the guard; Python's \<^verbatim>\<open>and\<close> reads \<^verbatim>\<open>iloc[-2]\<close> only when the length test holds.
\<close>

definition mom_growth :: "series \<Rightarrow> error + npfloat" where
  "mom_growth s =
     (if 2 \<le> length s then
        (case iloc s (- 2) of
           Inl e \<Rightarrow> Inl e
         | Inr prev \<Rightarrow>
             if prev \<noteq> 0 then
               (case iloc s (- 1) of
                  Inl e \<Rightarrow> Inl e
                | Inr lst \<Rightarrow> Inr (np_mul (np_div (lst - prev) prev) 100))
             else Inr NaN)
      else Inr NaN)"

subsection \<open>Filtering (lines 73--82)\<close>

text \<open>\<^verbatim>\<open>pd.to_datetime\<close> of a \<^verbatim>\<open>datetime.date\<close>: midnight of that day.\<close>

definition to_datetime :: "date \<Rightarrow> timestamp" where
  "to_datetime d = d * 86400000000000"

text \<open>The element-wise comparisons and \<^verbatim>\<open>&\<close> that build the boolean mask.\<close>

definition ge_mask :: "timestamp list \<Rightarrow> timestamp \<Rightarrow> bool list" where
  "ge_mask col t = map (\<lambda>v. v \<ge> t) col"

definition le_mask :: "timestamp list \<Rightarrow> timestamp \<Rightarrow> bool list" where
  "le_mask col t = map (\<lambda>v. v \<le> t) col"

definition isin :: "string list \<Rightarrow> string list \<Rightarrow> bool list" where
  "isin col vals = map (\<lambda>v. v \<in> set vals) col"

definition and_mask :: "bool list \<Rightarrow> bool list \<Rightarrow> bool list" where
  "and_mask a b = map2 (\<and>) a b"

definition mask :: "dataframe \<Rightarrow> timestamp \<Rightarrow> timestamp \<Rightarrow> string list \<Rightarrow> string list \<Rightarrow> bool list" where
  "mask d start end' regions categories =
     and_mask
       (and_mask
          (and_mask (ge_mask (map Order_Date d) start) (le_mask (map Order_Date d) end'))
          (isin (map Region d) regions))
       (isin (map Category d) categories)"

text \<open>\<^verbatim>\<open>df.loc[mask]\<close>: the rows whose mask entry is true, in the order of the frame.\<close>

definition loc :: "dataframe \<Rightarrow> bool list \<Rightarrow> dataframe" where
  "loc d m = map fst (filter snd (zip d m))"

text \<open>
  The two globals after line 82: \<open>df\<close>, the loaded table, and \<open>df_f\<close>, the filtered
  copy. \<open>date_range\<close> is the tuple the date widget returned; reading its second
  component raises \<^verbatim>\<open>IndexError\<close> when it has fewer than two.
\<close>

record session =
  df :: dataframe
  df_f :: dataframe

definition apply_filters :: "dataframe \<Rightarrow> date list \<Rightarrow> string list \<Rightarrow> string list \<Rightarrow> error + session" where
  "apply_filters d date_range regions categories =
     (case date_range of
        s # e # _ \<Rightarrow>
          (let start = to_datetime s; end' = to_datetime e
           in Inr \<lparr>df = d, df_f = loc d (mask d start end' regions categories)\<rparr>)
      | _ \<Rightarrow> Inl IndexError)"

text \<open>What the mask says of one row: the four comparisons of lines 76--79.\<close>

definition mask_row :: "timestamp \<Rightarrow> timestamp \<Rightarrow> string list \<Rightarrow> string list \<Rightarrow> row \<Rightarrow> bool" where
  "mask_row start end' regions categories r \<longleftrightarrow>
     start \<le> Order_Date r \<and> Order_Date r \<le> end' \<and>
     Region r \<in> set regions \<and> Category r \<in> set categories"






subsection \<open>Export (lines 29--43)\<close>

text \<open>
  The workbook is modelled by its logical content: the sheets in the order they were
  written, each with its name, its header row and its rows of cells. The encoding into
  bytes is the library's.
\<close>

record sheet =
  sheet_name :: string
  header :: "string list"
  body :: "cell list list"

type_synonym table = "string list \<times> cell list list"

text \<open>
  The frame handed to the export, as a table: its column index \<open>columns\<close>, then one
  row of cells per record, each record with all its cells.
\<close>

definition frame_table :: "string list \<Rightarrow> dataframe \<Rightarrow> table" where
  "frame_table columns d = (columns, map cells d)"

text \<open>
  \<^verbatim>\<open>.reset_index()\<close> on a grouped sum: the index becomes a column named after the
  group key, beside the \<^verbatim>\<open>Sales\<close> column.
\<close>

definition reset_index :: "string \<Rightarrow> series \<Rightarrow> table" where
  "reset_index key_name s = ([key_name, ''Sales''], map (\<lambda>(k, v). [Text k, Number v]) s)"

text \<open>
  \<^verbatim>\<open>t.to_excel(writer, sheet_name=name, index=False)\<close>: the writer gains one sheet,
  after those it already holds.
\<close>

definition to_excel :: "table \<Rightarrow> sheet list \<Rightarrow> string \<Rightarrow> sheet list" where
  "to_excel t writer name = writer @ [\<lparr>sheet_name = name, header = fst t, body = snd t\<rparr>]"

text \<open>
  \<^verbatim>\<open>to_excel_bytes(df)\<close>; the frame \<^verbatim>\<open>df\<close> is its column index \<open>columns\<close> with its
  records \<open>d\<close>.
\<close>

definition to_excel_bytes :: "string list \<Rightarrow> dataframe \<Rightarrow> sheet list" where
  "to_excel_bytes columns d =
     (let writer = [];
          writer = to_excel (frame_table columns d) writer ''raw_data'';
          writer = to_excel (reset_index ''Product'' (groupby_sum Product d)) writer
                     ''product_sales'';
          writer = to_excel (reset_index ''Category'' (groupby_sum Category d)) writer
                     ''category_sales'';
          writer = to_excel (reset_index ''Region'' (groupby_sum Region d)) writer
                     ''region_sales''
      in writer)"

text \<open>
  A roll-up sheet as the specification words it: two columns, and exactly one row per
  distinct key of the view, pairing the key with the sum of \<^verbatim>\<open>Sales\<close> over the rows
  that carry it.
\<close>

definition is_rollup_sheet :: "string \<Rightarrow> (row \<Rightarrow> string) \<Rightarrow> dataframe \<Rightarrow> sheet \<Rightarrow> bool" where
  "is_rollup_sheet key_name key d sh \<longleftrightarrow>
     header sh = [key_name, ''Sales''] \<and>
     set (body sh) =
       (\<lambda>k. [Text k, Number (sum_list (map Sales (filter (\<lambda>r. key r = k) d)))]) ` key ` set d \<and>
     length (body sh) = card (key ` set d)"

text \<open>The first column of a sheet, top to bottom.\<close>

definition key_column :: "sheet \<Rightarrow> cell list" where
  "key_column sh = concat (map (take 1) (body sh))"

subsection \<open>Loading (lines 18--23)\<close>

text \<open>
  The source file is a list of named columns of text cells, under the names pandas
  gives them; the loaded frame is a list of named columns, each either of dtype object
  (text) or of dtype datetime, where a cell may be \<^verbatim>\<open>NaT\<close> (\<open>None\<close>).

  What the library makes of a column of texts is not decided here. It is given by
  parameters: \<open>parses cells\<close> says whether pandas represents the column \<open>cells\<close> as
  datetimes, \<open>stamp cells c\<close> is the timestamp it then reads from the cell \<open>c\<close> of that
  column, and \<open>month\<close> prints the month period of a timestamp.

  \<^verbatim>\<open>pd.read_csv(path, parse_dates=cols)\<close> raises \<^verbatim>\<open>ValueError\<close> when a column of
  \<open>cols\<close> is missing from the file. A listed column that pandas cannot represent as
  datetimes is returned unaltered, with dtype object. No other column is looked at.
\<close>

datatype column = Object "string list" | Datetime "timestamp option list"

type_synonym csv = "(string \<times> string list) list"

type_synonym frame = "(string \<times> column) list"

definition column_length :: "column \<Rightarrow> nat" where
  "column_length c = (case c of Object texts \<Rightarrow> length texts | Datetime ts \<Rightarrow> length ts)"

definition parse_date_column ::
    "(string list \<Rightarrow> bool) \<Rightarrow> (string list \<Rightarrow> string \<Rightarrow> timestamp option) \<Rightarrow> string list \<Rightarrow> column" where
  "parse_date_column parses stamp texts =
     (if parses texts then Datetime (map (stamp texts) texts) else Object texts)"

definition convert_columns ::
    "(string list \<Rightarrow> bool) \<Rightarrow> (string list \<Rightarrow> string \<Rightarrow> timestamp option) \<Rightarrow> string list \<Rightarrow> csv \<Rightarrow> frame" where
  "convert_columns parses stamp parse_dates src =
     map (\<lambda>(name, texts).
        (name, if name \<in> set parse_dates then parse_date_column parses stamp texts
               else Object texts)) src"

definition read_csv ::
    "(string list \<Rightarrow> bool) \<Rightarrow> (string list \<Rightarrow> string \<Rightarrow> timestamp option) \<Rightarrow> csv \<Rightarrow> string list \<Rightarrow>
     error + frame" where
  "read_csv parses stamp src parse_dates =
     (if \<not> set parse_dates \<subseteq> set (map fst src) then Inl ValueError
      else Inr (convert_columns parses stamp parse_dates src))"

text \<open>
  \<^verbatim>\<open>col.dt.to_period("M").astype(str)\<close>: the \<^verbatim>\<open>.dt\<close> accessor exists on a
  datetime column only; on an object column it raises \<^verbatim>\<open>AttributeError\<close>.
\<close>

definition dt_to_period_str :: "(timestamp option \<Rightarrow> string) \<Rightarrow> column \<Rightarrow> error + column" where
  "dt_to_period_str month c =
     (case c of Datetime ts \<Rightarrow> Inr (Object (map month ts)) | Object _ \<Rightarrow> Inl AttributeError)"

definition load_data ::
    "(string list \<Rightarrow> bool) \<Rightarrow> (string list \<Rightarrow> string \<Rightarrow> timestamp option) \<Rightarrow>
     (timestamp option \<Rightarrow> string) \<Rightarrow> csv \<Rightarrow> error + frame" where
  "load_data parses stamp month src =
     (case read_csv parses stamp src [''Order Date''] of
        Inl e \<Rightarrow> Inl e
      | Inr fr \<Rightarrow>
          if ''order_month'' \<notin> set (map fst fr) then
            (case map_of fr ''Order Date'' of
               None \<Rightarrow> Inl KeyError
             | Some c \<Rightarrow>
                 (case dt_to_period_str month c of
                    Inl e \<Rightarrow> Inl e
                  | Inr months \<Rightarrow> Inr (fr @ [(''order_month'', months)])))
          else Inr fr)"

subsection \<open>Example data\<close>

text \<open>
  The three rows of the end-to-end scenario of the specification, in a frame with the
  columns \<open>scenario_columns\<close>. Both order dates are stamped at midnight.
\<close>

definition scenario_columns :: "string list" where
  "scenario_columns =
     [''Order ID'', ''Order Date'', ''Product'', ''Category'', ''Region'', ''Sales'',
      ''order_month'']"

definition scenario :: dataframe where
  "scenario =
     [\<lparr>Order_ID = ''O1'', Order_Date = 1704412800000000000, Product = ''WidgetA'',
        Category = ''Cat1'', Region = ''East'', Sales = 100, order_month = ''2024-01'',
        cells = [Text ''O1'', Stamp 1704412800000000000, Text ''WidgetA'', Text ''Cat1'',
                 Text ''East'', Number 100, Text ''2024-01'']\<rparr>,
      \<lparr>Order_ID = ''O1'', Order_Date = 1704412800000000000, Product = ''WidgetB'',
        Category = ''Cat1'', Region = ''East'', Sales = 50, order_month = ''2024-01'',
        cells = [Text ''O1'', Stamp 1704412800000000000, Text ''WidgetB'', Text ''Cat1'',
                 Text ''East'', Number 50, Text ''2024-01'']\<rparr>,
      \<lparr>Order_ID = ''O2'', Order_Date = 1707523200000000000, Product = ''WidgetA'',
        Category = ''Cat1'', Region = ''West'', Sales = 200, order_month = ''2024-02'',
        cells = [Text ''O2'', Stamp 1707523200000000000, Text ''WidgetA'', Text ''Cat1'',
                 Text ''West'', Number 200, Text ''2024-02'']\<rparr>]"


text \<open>
  Library parameters for the examples. A column is read as datetimes when it has at
  least one cell and each cell is one of the two dates of the scenario.
\<close>

definition parses_example :: "string list \<Rightarrow> bool" where
  "parses_example texts \<longleftrightarrow> texts \<noteq> [] \<and> set texts \<subseteq> {''2024-01-05'', ''2024-02-10''}"

definition stamp_example :: "string list \<Rightarrow> string \<Rightarrow> timestamp option" where
  "stamp_example texts =
     map_of [(''2024-01-05'', 1704412800000000000), (''2024-02-10'', 1707523200000000000)]"

definition month_example :: "timestamp option \<Rightarrow> string" where
  "month_example t =
     (case t of None \<Rightarrow> ''NaT''
      | Some n \<Rightarrow> if n < 1706745600000000000 then ''2024-01'' else ''2024-02'')"

text \<open>A source file without a \<^verbatim>\<open>Sales\<close> column.\<close>

definition csv_without_sales :: csv where
  "csv_without_sales =
     [(''Order ID'', [''O1'']), (''Order Date'', [''2024-01-05'']), (''Product'', [''WidgetA'']),
      (''Category'', [''Cat1'']), (''Region'', [''East''])]"

text \<open>A source file with every column, whose second order date is not a date.\<close>

definition csv_bad_date :: csv where
  "csv_bad_date =
     [(''Order ID'', [''O1'', ''O2'']), (''Order Date'', [''2024-01-05'', ''soon'']),
      (''Product'', [''WidgetA'', ''WidgetB'']), (''Category'', [''Cat1'', ''Cat1'']),
      (''Region'', [''East'', ''West'']), (''Sales'', [''100'', ''50'']),
      (''order_month'', [''2024-01'', ''2024-02''])]"

section \<open>Properties\<close>

subsection \<open>Grouping\<close>

lemma set_group_keys: "set (group_keys key d) = key ` set d"
  by (simp add: group_keys_def)

lemma distinct_group_keys: "distinct (group_keys key d)"
  by (simp add: group_keys_def)

lemma sorted_group_keys: "sorted (group_keys key d)"
  by (simp add: group_keys_def)

subsection \<open>KPIs\<close>

text \<open>
  Claim C2. The average order value is the total revenue divided by the number of
  distinct orders when that number is positive, and exactly 0 when it is zero. The
  division is never reached with a zero divisor: the result is always a finite number,
  never \<^verbatim>\<open>nan\<close> or an infinity, and the computation has no raising branch.
\<close>

theorem avg_order_value_policy:
  "(0 < total_orders d \<longrightarrow>
      avg_order_value d = Num (total_revenue d / of_nat (total_orders d))) \<and>
   (total_orders d = 0 \<longrightarrow> avg_order_value d = Num 0) \<and>
   avg_order_value d \<notin> {NaN, PosInf, NegInf}"
  by (simp add: avg_order_value_def np_div_def)

lemma total_orders_scenario: "total_orders scenario = 2"
  by (simp add: total_orders_def scenario_def)

lemma total_revenue_scenario: "total_revenue scenario = 350"
  by (simp add: total_revenue_def scenario_def)

theorem avg_order_value_policy_witness:
  "total_orders [] = 0 \<and> avg_order_value [] = Num 0 \<and>
   0 < total_orders scenario \<and> avg_order_value scenario = Num 175"
  using avg_order_value_policy [of "[]"] avg_order_value_policy [of scenario]
  by (simp add: total_orders_scenario total_revenue_scenario) (simp add: total_orders_def)

subsection \<open>Month-over-month growth\<close>

lemma iloc_last2:
  "iloc (pre @ [(m1, p), (m2, l)]) (- 2) = Inr p"
  "iloc (pre @ [(m1, p), (m2, l)]) (- 1) = Inr l"
proof -
  have n1: "nat (1 + int (length pre)) = Suc (length pre)" by simp
  show "iloc (pre @ [(m1, p), (m2, l)]) (- 2) = Inr p"
    by (simp add: iloc_def nth_append)
  show "iloc (pre @ [(m1, p), (m2, l)]) (- 1) = Inr l"
    by (simp add: iloc_def nth_append n1)
qed

text \<open>
  Claim C3. The growth is absent (\<^verbatim>\<open>np.nan\<close>, shown as N/A) when the monthly series
  has fewer than two entries, and when its second-to-last sum \<open>p\<close> is exactly 0;
  otherwise, with last sum \<open>l\<close>, it is \<open>(l - p) / p * 100\<close>. No case raises.
\<close>

theorem mom_growth_cases:
  "(length s < 2 \<longrightarrow> mom_growth s = Inr NaN) \<and>
   mom_growth (pre @ [(m1, 0), (m2, l)]) = Inr NaN \<and>
   (p \<noteq> 0 \<longrightarrow>
      mom_growth (pre @ [(m1, p), (m2, l)]) = Inr (Num ((l - p) / p * 100)))"
  by (simp add: mom_growth_def iloc_last2 np_div_def np_mul_def)

lemma monthly_sales_scenario:
  "monthly_sales scenario = [(''2024-01'', 150), (''2024-02'', 200)]"
  by code_simp

theorem mom_growth_cases_witness:
  "length [(''2024-01'', 150 :: rat)] < 2 \<and> mom_growth [(''2024-01'', 150)] = Inr NaN \<and>
   (150 :: rat) \<noteq> 0 \<and> mom_growth (monthly_sales scenario) = Inr (Num (100 / 3))"
  using mom_growth_cases [where s = "[(''2024-01'', 150)]" and pre = "[]" and ?m1.0 = "''2024-01''"
      and p = 150 and ?m2.0 = "''2024-02''" and l = 200]
  by (simp add: monthly_sales_scenario)

subsection \<open>Filtering\<close>

lemma loc_mask_filter:
  "loc d (mask d start end' regions categories) =
   filter (mask_row start end' regions categories) d"
  by (induction d)
    (simp_all add: loc_def mask_def and_mask_def ge_mask_def le_mask_def isin_def mask_row_def)









text \<open>
  Claim C5. When the start date is strictly after the end date, the filter step does
  not raise and the view is empty.
\<close>

theorem apply_filters_inverted_range:
  "e < s \<Longrightarrow> apply_filters d [s, e] regions categories = Inr \<lparr>df = d, df_f = []\<rparr>"
  by (auto simp add: apply_filters_def loc_mask_filter mask_row_def to_datetime_def)

theorem apply_filters_inverted_range_witness:
  "(19727 :: int) < 19782 \<and>
   apply_filters scenario [19782, 19727] [''East'', ''West''] [''Cat1''] =
     Inr \<lparr>df = scenario, df_f = []\<rparr>"
  using apply_filters_inverted_range [of 19727 19782 scenario "[''East'', ''West'']" "[''Cat1'']"]
  by simp

text \<open>
  Claim C6. Filtering is idempotent: the filter step applied, with the same dates,
  regions and categories, to the view a first application produced returns that view.
\<close>

theorem apply_filters_idempotent:
  "apply_filters d [s, e] regions categories = Inr st \<Longrightarrow>
   apply_filters (df_f st) [s, e] regions categories = Inr \<lparr>df = df_f st, df_f = df_f st\<rparr>"
  by (auto simp add: apply_filters_def loc_mask_filter)

lemma apply_filters_scenario_west:
  "apply_filters scenario [19727, 19782] [''West''] [''Cat1''] =
     Inr \<lparr>df = scenario, df_f = [scenario ! 2]\<rparr>"
  by (simp add: apply_filters_def loc_def mask_def and_mask_def ge_mask_def le_mask_def
      isin_def scenario_def to_datetime_def)

theorem apply_filters_idempotent_witness:
  "apply_filters scenario [19727, 19782] [''West''] [''Cat1''] =
     Inr \<lparr>df = scenario, df_f = [scenario ! 2]\<rparr> \<and>
   apply_filters [scenario ! 2] [19727, 19782] [''West''] [''Cat1''] =
     Inr \<lparr>df = [scenario ! 2], df_f = [scenario ! 2]\<rparr>"
  using apply_filters_idempotent [OF apply_filters_scenario_west] apply_filters_scenario_west
  by simp

subsection \<open>Export\<close>

lemma body_reset_index_groupby:
  "snd (reset_index key_name (groupby_sum key d)) =
   map (\<lambda>k. [Text k, Number (sum_list (map Sales (filter (\<lambda>r. key r = k) d)))]) (group_keys key d)"
  by (simp add: reset_index_def groupby_sum_def group_rows_def comp_def)

lemma is_rollup_sheet_groupby:
  "is_rollup_sheet key_name key d
     \<lparr>sheet_name = name, header = fst (reset_index key_name (groupby_sum key d)),
      body = snd (reset_index key_name (groupby_sum key d))\<rparr>"
proof -
  have "length (group_keys key d) = card (key ` set d)"
    using distinct_card [OF distinct_group_keys, of key d] by (simp add: set_group_keys)
  then show ?thesis
    unfolding is_rollup_sheet_def
    by (simp add: body_reset_index_groupby set_group_keys image_image) (simp add: reset_index_def)
qed

lemma to_excel_bytes_sheets:
  "to_excel_bytes columns d =
     [\<lparr>sheet_name = ''raw_data'', header = columns, body = map cells d\<rparr>,
      \<lparr>sheet_name = ''product_sales'',
       header = fst (reset_index ''Product'' (groupby_sum Product d)),
       body = snd (reset_index ''Product'' (groupby_sum Product d))\<rparr>,
      \<lparr>sheet_name = ''category_sales'',
       header = fst (reset_index ''Category'' (groupby_sum Category d)),
       body = snd (reset_index ''Category'' (groupby_sum Category d))\<rparr>,
      \<lparr>sheet_name = ''region_sales'',
       header = fst (reset_index ''Region'' (groupby_sum Region d)),
       body = snd (reset_index ''Region'' (groupby_sum Region d))\<rparr>]"
  by (simp add: to_excel_bytes_def to_excel_def frame_table_def)

text \<open>
  Claim C8. The export writes exactly four sheets, in the order \<^verbatim>\<open>raw_data\<close>,
  \<^verbatim>\<open>product_sales\<close>, \<^verbatim>\<open>category_sales\<close>, \<^verbatim>\<open>region_sales\<close>. The first holds the
  view itself: under the frame's own columns, one row per record, in the order of the
  view, each with all the cells of its record. Each of the other three has the two
  columns key and \<^verbatim>\<open>Sales\<close> and one row for every distinct key of the view (all of
  them, not the top five), pairing the key with the sum of \<^verbatim>\<open>Sales\<close> over its rows.
\<close>

theorem to_excel_bytes_four_sheets:
  "map sheet_name (to_excel_bytes columns d) =
     [''raw_data'', ''product_sales'', ''category_sales'', ''region_sales''] \<and>
   header (to_excel_bytes columns d ! 0) = columns \<and>
   body (to_excel_bytes columns d ! 0) = map cells d \<and>
   length (body (to_excel_bytes columns d ! 0)) = length d \<and>
   is_rollup_sheet ''Product'' Product d (to_excel_bytes columns d ! 1) \<and>
   is_rollup_sheet ''Category'' Category d (to_excel_bytes columns d ! 2) \<and>
   is_rollup_sheet ''Region'' Region d (to_excel_bytes columns d ! 3)"
  by (simp add: to_excel_bytes_sheets is_rollup_sheet_groupby)

text \<open>The export of the scenario, sheet by sheet.\<close>

lemma to_excel_bytes_scenario:
  "map header (to_excel_bytes scenario_columns scenario) =
     [scenario_columns, [''Product'', ''Sales''], [''Category'', ''Sales''], [''Region'', ''Sales'']] \<and>
   map body (to_excel_bytes scenario_columns scenario) =
     [map cells scenario,
      [[Text ''WidgetA'', Number 300], [Text ''WidgetB'', Number 50]],
      [[Text ''Cat1'', Number 350]],
      [[Text ''East'', Number 150], [Text ''West'', Number 200]]]"
  by code_simp

lemma key_column_rollup:
  "key_column \<lparr>sheet_name = name, header = h, body = map (\<lambda>k. [Text k, Number (f k)]) ks\<rparr> =
   map Text ks"
  by (induction ks) (simp_all add: key_column_def)

lemma strict_sorted_group_keys: "sorted_wrt (<) (group_keys key d)"
  by (simp add: strict_sorted_iff sorted_group_keys distinct_group_keys)

text \<open>
  Claim C10. In each of the three grouped sheets the keys, read down the first column,
  are in strictly ascending order: sorted, with one row per distinct key of the view.
\<close>

theorem rollup_sheets_sorted_by_key:
  "(\<exists>ks. key_column (to_excel_bytes columns d ! 1) = map Text ks \<and> sorted_wrt (<) ks \<and>
         set ks = Product ` set d \<and> length (body (to_excel_bytes columns d ! 1)) = length ks) \<and>
   (\<exists>ks. key_column (to_excel_bytes columns d ! 2) = map Text ks \<and> sorted_wrt (<) ks \<and>
         set ks = Category ` set d \<and> length (body (to_excel_bytes columns d ! 2)) = length ks) \<and>
   (\<exists>ks. key_column (to_excel_bytes columns d ! 3) = map Text ks \<and> sorted_wrt (<) ks \<and>
         set ks = Region ` set d \<and> length (body (to_excel_bytes columns d ! 3)) = length ks)"
proof (intro conjI)
  show "\<exists>ks. key_column (to_excel_bytes columns d ! 1) = map Text ks \<and> sorted_wrt (<) ks \<and>
         set ks = Product ` set d \<and> length (body (to_excel_bytes columns d ! 1)) = length ks"
    by (rule exI [of _ "group_keys Product d"])
      (simp add: to_excel_bytes_sheets key_column_rollup strict_sorted_group_keys
        set_group_keys body_reset_index_groupby)
  show "\<exists>ks. key_column (to_excel_bytes columns d ! 2) = map Text ks \<and> sorted_wrt (<) ks \<and>
         set ks = Category ` set d \<and> length (body (to_excel_bytes columns d ! 2)) = length ks"
    by (rule exI [of _ "group_keys Category d"])
      (simp add: to_excel_bytes_sheets key_column_rollup strict_sorted_group_keys
        set_group_keys body_reset_index_groupby)
  show "\<exists>ks. key_column (to_excel_bytes columns d ! 3) = map Text ks \<and> sorted_wrt (<) ks \<and>
         set ks = Region ` set d \<and> length (body (to_excel_bytes columns d ! 3)) = length ks"
    by (rule exI [of _ "group_keys Region d"])
      (simp add: to_excel_bytes_sheets key_column_rollup strict_sorted_group_keys
        set_group_keys body_reset_index_groupby)
qed

subsection \<open>Loading\<close>

lemma read_csv_missing:
  "''Order Date'' \<notin> set (map fst src) \<Longrightarrow>
   read_csv parses stamp src [''Order Date''] = Inl ValueError"
  by (simp add: read_csv_def)

lemma read_csv_present:
  "''Order Date'' \<in> set (map fst src) \<Longrightarrow>
   read_csv parses stamp src [''Order Date''] =
     Inr (convert_columns parses stamp [''Order Date''] src)"
  by (simp add: read_csv_def)

lemma columns_convert: "map fst (convert_columns parses stamp pd src) = map fst src"
  by (induction src) (auto simp: convert_columns_def)

lemma column_names_convert:
  "fst ` set (convert_columns parses stamp pd src) = fst ` set src"
  using columns_convert [of parses stamp pd src] by (metis set_map)

lemma map_of_convert:
  "map_of (convert_columns parses stamp pd src) k =
   map_option (\<lambda>texts. if k \<in> set pd then parse_date_column parses stamp texts else Object texts)
     (map_of src k)"
  by (induction src) (auto simp: convert_columns_def)

lemma length_parse_date_column:
  "column_length (parse_date_column parses stamp texts) = length texts"
  by (simp add: parse_date_column_def column_length_def)

lemma lengths_convert:
  "map (\<lambda>(n, c). (n, column_length c)) (convert_columns parses stamp pd src) =
   map (\<lambda>(n, c). (n, length c)) src"
  by (induction src)
    (auto simp: convert_columns_def length_parse_date_column, simp_all add: column_length_def)

lemma length_convert: "length (convert_columns parses stamp pd src) = length src"
  by (simp add: convert_columns_def)

lemma map_of_present: "map_of src k = Some v \<Longrightarrow> k \<in> set (map fst src)"
  by (metis domI dom_map_of_conv_image_fst set_map)

text \<open>
  Claim C9, amended. Loading fails with \<^verbatim>\<open>ValueError\<close> when the source has no
  \<^verbatim>\<open>Order Date\<close> column; no other column is required. When pandas cannot read the
  \<^verbatim>\<open>Order Date\<close> column as dates, the column stays text: loading then fails with
  \<^verbatim>\<open>AttributeError\<close> if \<^verbatim>\<open>order_month\<close> has to be derived, and returns the table
  with the order dates unparsed if the source brings its own \<^verbatim>\<open>order_month\<close>. When
  pandas reads the column as dates, loading succeeds with the dates parsed and
  \<^verbatim>\<open>order_month\<close> present. Whenever loading succeeds, every source column keeps its
  name and its number of rows: no row is dropped.
\<close>

theorem load_data_behaviour:
  "(''Order Date'' \<notin> set (map fst src) \<longrightarrow>
      load_data parses stamp month src = Inl ValueError) \<and>
   (map_of src ''Order Date'' = Some texts \<and> \<not> parses texts \<and>
      ''order_month'' \<notin> set (map fst src) \<longrightarrow>
        load_data parses stamp month src = Inl AttributeError) \<and>
   (map_of src ''Order Date'' = Some texts \<and> \<not> parses texts \<and>
      ''order_month'' \<in> set (map fst src) \<longrightarrow>
        (\<exists>fr. load_data parses stamp month src = Inr fr \<and>
              map_of fr ''Order Date'' = Some (Object texts))) \<and>
   (map_of src ''Order Date'' = Some texts \<and> parses texts \<longrightarrow>
        (\<exists>fr. load_data parses stamp month src = Inr fr \<and>
              map_of fr ''Order Date'' = Some (Datetime (map (stamp texts) texts)) \<and>
              ''order_month'' \<in> set (map fst fr))) \<and>
   (load_data parses stamp month src = Inr fr \<longrightarrow>
        map (\<lambda>(n, c). (n, column_length c)) (take (length src) fr) =
        map (\<lambda>(n, c). (n, length c)) src)"
proof (intro conjI impI)
  assume "''Order Date'' \<notin> set (map fst src)"
  then show "load_data parses stamp month src = Inl ValueError"
    by (simp add: load_data_def read_csv_missing)
next
  assume a: "map_of src ''Order Date'' = Some texts \<and> \<not> parses texts \<and>
      ''order_month'' \<notin> set (map fst src)"
  then have "''Order Date'' \<in> set (map fst src)" by (auto dest: map_of_present)
  then show "load_data parses stamp month src = Inl AttributeError"
    using a
    by (simp add: load_data_def read_csv_present column_names_convert map_of_convert
        parse_date_column_def dt_to_period_str_def)
next
  assume a: "map_of src ''Order Date'' = Some texts \<and> \<not> parses texts \<and>
      ''order_month'' \<in> set (map fst src)"
  then have "''Order Date'' \<in> set (map fst src)" by (auto dest: map_of_present)
  then show "\<exists>fr. load_data parses stamp month src = Inr fr \<and>
              map_of fr ''Order Date'' = Some (Object texts)"
    using a
    by (simp add: load_data_def read_csv_present column_names_convert map_of_convert
        parse_date_column_def)
next
  assume a: "map_of src ''Order Date'' = Some texts \<and> parses texts"
  then have p: "''Order Date'' \<in> set (map fst src)" by (auto dest: map_of_present)
  show "\<exists>fr. load_data parses stamp month src = Inr fr \<and>
              map_of fr ''Order Date'' = Some (Datetime (map (stamp texts) texts)) \<and>
              ''order_month'' \<in> set (map fst fr)"
  proof (cases "''order_month'' \<in> set (map fst src)")
    case True
    then show ?thesis using a p
      by (simp add: load_data_def read_csv_present column_names_convert map_of_convert
          parse_date_column_def)
  next
    case False
    then show ?thesis using a p
      by (simp add: load_data_def read_csv_present column_names_convert map_of_convert
          parse_date_column_def dt_to_period_str_def)
  qed
next
  assume r: "load_data parses stamp month src = Inr fr"
  then have p: "''Order Date'' \<in> set (map fst src)"
    by (auto simp: load_data_def read_csv_def split: if_splits)
  have "take (length src) fr = convert_columns parses stamp [''Order Date''] src"
    using r p
    by (auto simp: load_data_def read_csv_present length_convert
        split: if_splits option.splits sum.splits)
  then show "map (\<lambda>(n, c). (n, column_length c)) (take (length src) fr) =
        map (\<lambda>(n, c). (n, length c)) src"
    by (simp add: lengths_convert)
qed

theorem load_data_behaviour_witness:
  "''Order Date'' \<notin> set (map fst [(''Sales'', [''100''])]) \<and>
   load_data parses_example stamp_example month_example [(''Sales'', [''100''])] =
     Inl ValueError \<and>
   map_of [(''Order Date'', [''soon''])] ''Order Date'' = Some [''soon''] \<and>
   \<not> parses_example [''soon''] \<and>
   ''order_month'' \<notin> set (map fst [(''Order Date'', [''soon''])]) \<and>
   load_data parses_example stamp_example month_example [(''Order Date'', [''soon''])] =
     Inl AttributeError \<and>
   map_of csv_bad_date ''Order Date'' = Some [''2024-01-05'', ''soon''] \<and>
   \<not> parses_example [''2024-01-05'', ''soon''] \<and>
   ''order_month'' \<in> set (map fst csv_bad_date) \<and>
   map_of csv_without_sales ''Order Date'' = Some [''2024-01-05''] \<and>
   parses_example [''2024-01-05''] \<and>
   load_data parses_example stamp_example month_example csv_without_sales =
     Inr [(''Order ID'', Object [''O1'']), (''Order Date'', Datetime [Some 1704412800000000000]),
          (''Product'', Object [''WidgetA'']), (''Category'', Object [''Cat1'']),
          (''Region'', Object [''East'']), (''order_month'', Object [''2024-01''])]"
  using
    load_data_behaviour [where src = "[(''Sales'', [''100''])]" and parses = parses_example
      and stamp = stamp_example and month = month_example]
    load_data_behaviour [where src = "[(''Order Date'', [''soon''])]" and texts = "[''soon'']"
      and parses = parses_example and stamp = stamp_example and month = month_example]
    load_data_behaviour [where src = csv_bad_date and texts = "[''2024-01-05'', ''soon'']"
      and parses = parses_example and stamp = stamp_example and month = month_example]
    load_data_behaviour [where src = csv_without_sales and texts = "[''2024-01-05'']"
      and parses = parses_example and stamp = stamp_example and month = month_example
      and fr = "[(''Order ID'', Object [''O1'']),
          (''Order Date'', Datetime [Some 1704412800000000000]),
          (''Product'', Object [''WidgetA'']), (''Category'', Object [''Cat1'']),
          (''Region'', Object [''East'']), (''order_month'', Object [''2024-01''])]"]
  by (simp add: load_data_def read_csv_def convert_columns_def parse_date_column_def
      dt_to_period_str_def csv_without_sales_def csv_bad_date_def parses_example_def
      stamp_example_def month_example_def)

text \<open>
  Claim C9 as stated fails twice: a source without a \<^verbatim>\<open>Sales\<close> column loads, and a
  source with its own \<^verbatim>\<open>order_month\<close> column and an order date that is not a date
  loads with the order dates left as text.
\<close>

theorem load_data_counterexample:
  "load_data parses_example stamp_example month_example csv_without_sales =
     Inr [(''Order ID'', Object [''O1'']), (''Order Date'', Datetime [Some 1704412800000000000]),
          (''Product'', Object [''WidgetA'']), (''Category'', Object [''Cat1'']),
          (''Region'', Object [''East'']), (''order_month'', Object [''2024-01''])] \<and>
   ''Sales'' \<notin> set (map fst csv_without_sales) \<and>
   \<not> parses_example [''2024-01-05'', ''soon''] \<and>
   load_data parses_example stamp_example month_example csv_bad_date =
     Inr [(''Order ID'', Object [''O1'', ''O2'']), (''Order Date'', Object [''2024-01-05'', ''soon'']),
          (''Product'', Object [''WidgetA'', ''WidgetB'']), (''Category'', Object [''Cat1'', ''Cat1'']),
          (''Region'', Object [''East'', ''West'']), (''Sales'', Object [''100'', ''50'']),
          (''order_month'', Object [''2024-01'', ''2024-02''])]"
  by (simp add: load_data_def read_csv_def convert_columns_def parse_date_column_def
      dt_to_period_str_def csv_without_sales_def csv_bad_date_def parses_example_def
      stamp_example_def month_example_def)

end
